theory Spec2Isabelle
  imports Complex_Main "HOL-Library.Word" "HOL-Library.Log_Nat"
begin

section \<open>The HST history-file parser (src/src/hst\_reader.ts)\<close>

text \<open>
  The class \<open>HSTParser\<close> is embedded as a record holding its fields, and each
  method as a function from the parser state to a pair: what the call produced (an error
  thrown, or the candle returned) and the parser state left behind. The state is
  returned on failure as well, since a JavaScript exception does not undo the assignments
  made before it was thrown. The \<open>Async\<close> methods, which only call the synchronous
  ones inside a promise, and \<open>isValidFormat\<close> are not embedded.
\<close>

subsection \<open>JavaScript numbers\<close>

text \<open>
  \<open>candleNumber\<close> is a JavaScript number, an IEEE-754 double, that \<open>getCandleAt\<close>
  computes by a division: it need not be an integer, and it is infinite or NaN when the
  period read from the header is 0. A finite double is modelled by the rational it
  denotes. Each arithmetic operation computes the exact result and rounds it to the
  nearest double, ties to the even significand, as IEEE-754 prescribes for addition,
  multiplication and division. The sign of zero is not modelled.
\<close>

datatype number = Fin rat | PosInf | NegInf | NaN

text \<open>The nearest integer, ties to the even one.\<close>

definition rne :: "rat \<Rightarrow> int" where
  "rne q = (let f = \<lfloor>q\<rfloor>; r = q - of_int f
            in if r < 1 / 2 then f else if 1 / 2 < r then f + 1
               else if even f then f else f + 1)"

text \<open>For \<open>a > 0\<close>, the exponent \<open>e\<close> with \<open>2 ^ e \<le> a < 2 ^ (e + 1)\<close>: with the bit
  lengths of numerator and denominator it is one of two candidates.\<close>

definition ilog2 :: "rat \<Rightarrow> int" where
  "ilog2 a = (let (p, q) = quotient_of a; d = bitlen p - bitlen q
              in if 2 powi d \<le> a then d else d - 1)"

text \<open>
  Rounding to a double: 53 significant bits, so the unit in the last place is
  \<open>2 ^ (e - 52)\<close>, and not below \<open>2 ^ - 1074\<close>, the spacing of the subnormal numbers; a
  result of \<open>2 ^ 1024\<close> or more is an infinity.
\<close>

definition roundDouble :: "rat \<Rightarrow> number" where
  "roundDouble x =
     (if x = 0 then Fin 0
      else let a = \<bar>x\<bar>;
               u = max (ilog2 a - 52) (- 1074);
               y = of_int (rne (a / 2 powi u)) * 2 powi u
           in if 2 ^ 1024 \<le> y then (if 0 < x then PosInf else NegInf)
              else Fin (if 0 < x then y else - y))"

fun num_neg :: "number \<Rightarrow> number" where
  "num_neg (Fin x) = Fin (- x)"
| "num_neg PosInf = NegInf"
| "num_neg NegInf = PosInf"
| "num_neg NaN = NaN"

fun num_add :: "number \<Rightarrow> number \<Rightarrow> number" where
  "num_add NaN _ = NaN"
| "num_add _ NaN = NaN"
| "num_add (Fin x) (Fin y) = roundDouble (x + y)"
| "num_add PosInf NegInf = NaN"
| "num_add NegInf PosInf = NaN"
| "num_add PosInf _ = PosInf"
| "num_add NegInf _ = NegInf"
| "num_add (Fin x) PosInf = PosInf"
| "num_add (Fin x) NegInf = NegInf"

definition num_sub :: "number \<Rightarrow> number \<Rightarrow> number" where
  "num_sub a b = num_add a (num_neg b)"

text \<open>Multiplication by a double that holds an integer, as in
  \<open>candleNumber * this.candleByteSize\<close> and \<open>60000 * this.period\<close>.\<close>

fun num_mul_int :: "number \<Rightarrow> int \<Rightarrow> number" where
  "num_mul_int (Fin x) k = roundDouble (x * of_int k)"
| "num_mul_int NaN k = NaN"
| "num_mul_int PosInf k = (if k = 0 then NaN else if 0 < k then PosInf else NegInf)"
| "num_mul_int NegInf k = (if k = 0 then NaN else if 0 < k then NegInf else PosInf)"

text \<open>Division; a zero divisor counts as positive.\<close>

fun num_div :: "number \<Rightarrow> number \<Rightarrow> number" where
  "num_div NaN _ = NaN"
| "num_div _ NaN = NaN"
| "num_div (Fin x) (Fin y) =
     (if y = 0 then (if 0 < x then PosInf else if x < 0 then NegInf else NaN)
      else roundDouble (x / y))"
| "num_div (Fin x) PosInf = Fin 0"
| "num_div (Fin x) NegInf = Fin 0"
| "num_div PosInf (Fin y) = (if y < 0 then NegInf else PosInf)"
| "num_div NegInf (Fin y) = (if y < 0 then PosInf else NegInf)"
| "num_div PosInf _ = NaN"
| "num_div NegInf _ = NaN"

text \<open>\<open>Math.floor\<close>: the floor of a double is a double.\<close>

fun num_floor :: "number \<Rightarrow> number" where
  "num_floor (Fin x) = Fin (of_int \<lfloor>x\<rfloor>)"
| "num_floor PosInf = PosInf"
| "num_floor NegInf = NegInf"
| "num_floor NaN = NaN"

text \<open>\<open>a < b\<close> for a number \<open>a\<close> and a double \<open>b\<close> that holds an integer; false on
  NaN.\<close>

fun num_less_int :: "number \<Rightarrow> int \<Rightarrow> bool" where
  "num_less_int (Fin x) k = (x < of_int k)"
| "num_less_int NegInf k = True"
| "num_less_int PosInf k = False"
| "num_less_int NaN k = False"

text \<open>\<open>Math.floor(x / 2)\<close>.\<close>

definition floor_half :: "number \<Rightarrow> number" where
  "floor_half x = num_floor (num_div x (Fin 2))"

subsection \<open>Bytes, buffers and reads\<close>

type_synonym byte = "8 word"

datatype error =
    CouldNotFindFile
  | FileTooSmall
  | AlreadyAtEndOfFile
  | AlreadyAtStartOfFile
  | CandleNotFound
  | TypeError
  | RangeError

text \<open>
  \<open>fs.readSync(fd, buffer, 0, n, pos)\<close> on a buffer that \<open>Buffer.alloc(n)\<close> has
  filled with zeros: the bytes of the file from \<open>pos\<close> on, at most \<open>n\<close> of them;
  where the file ends first, the rest of the buffer keeps its zeros. A read at or past the
  end of the file reads nothing and is not an error.
\<close>

definition readSync :: "byte list \<Rightarrow> nat \<Rightarrow> nat \<Rightarrow> byte list" where
  "readSync bytes n pos =
     (let got = take n (drop pos bytes) in got @ replicate (n - length got) 0)"

text \<open>The value of four bytes as a little-endian two's-complement integer.\<close>

definition int32LE :: "byte \<Rightarrow> byte \<Rightarrow> byte \<Rightarrow> byte \<Rightarrow> int" where
  "int32LE b0 b1 b2 b3 =
     (let u = uint b0 + 256 * uint b1 + 65536 * uint b2 + 16777216 * uint b3
      in if u < 2147483648 then u else u - 4294967296)"

text \<open>\<open>buffer.readInt32LE(0)\<close>: a RangeError on a buffer shorter than four bytes.\<close>

fun readInt32LE :: "byte list \<Rightarrow> error + int" where
  "readInt32LE (b0 # b1 # b2 # b3 # _) = Inr (int32LE b0 b1 b2 b3)"
| "readInt32LE _ = Inl RangeError"

subsection \<open>Decoded values and the field table\<close>

text \<open>
  A decoded field is a Date (its \<open>getTime()\<close> in milliseconds), a 32-bit integer, a
  double, or \<open>undefined\<close>. A double is kept as the eight bytes read: the IEEE-754
  decoding of \<open>readDoubleLE\<close> is not modelled.
\<close>

datatype val = VDate int | VInt int | VDouble "byte list" | VUndefined

text \<open>
  Modelled from the spec: the module \<open>parser_data\<close> (the table \<open>parserData\<close> and the
  type of its entries) is not among the sources. \<open>readCandle\<close> uses, of an entry, the
  properties \<open>value\<close>, \<open>size\<close>, \<open>position\<close> and \<open>type\<close>, each of which may
  be absent; the spec calls the entry a FormatDescriptor with a decode kind, a byte size
  and a byte offset within the record. The table is a parameter of the model: for a
  version, the entries of \<open>parserData[version]\<close> in the order of \<open>Object.entries\<close>,
  or \<open>None\<close> where the table has no such version.
\<close>

record fieldData =
  fvalue :: val
  fsize :: "nat option"
  fposition :: "nat option"
  ftype :: "string option"

type_synonym parserData = "int \<Rightarrow> (string \<times> fieldData) list option"

type_synonym candle = "(string \<times> val) list"

text \<open>\<open>candleData[key] = v\<close>: a new key goes last, an old one keeps its place.\<close>

fun assign :: "candle \<Rightarrow> string \<Rightarrow> val \<Rightarrow> candle" where
  "assign [] k v = [(k, v)]"
| "assign ((k', v') # c) k v = (if k' = k then (k, v) # c else (k', v') # assign c k v)"

text \<open>\<open>candle.timestamp\<close>: \<open>undefined\<close> for a missing key.\<close>

definition timestamp :: "candle \<Rightarrow> val" where
  "timestamp c = (case map_of c ''timestamp'' of None \<Rightarrow> VUndefined | Some v \<Rightarrow> v)"

text \<open>\<open>v.getTime()\<close>: a TypeError on anything but a Date.\<close>

fun getTime :: "val \<Rightarrow> error + int" where
  "getTime (VDate t) = Inr t"
| "getTime _ = Inl TypeError"

subsection \<open>The parser state\<close>

text \<open>
  \<open>fd\<close> stands for the open file: the bytes the descriptor gives access to.
  \<open>symbol\<close> is kept as the twelve bytes read; their decoding as UTF-8 is not modelled.
  \<open>start\<close> is the \<open>getTime()\<close> of the Date. \<open>byteOffset\<close>,
  \<open>candleByteSize\<close> and \<open>filesize\<close> only ever hold integers.
\<close>

record parser =
  version :: int
  symbol :: "byte list"
  period :: int
  start :: int
  candleNumber :: number
  fd :: "byte list"
  byteOffset :: int
  candleByteSize :: int
  filesize :: int

type_synonym 'a result = "(error + 'a) \<times> parser"

subsection \<open>constructor\<close>

text \<open>
  The file system is a map from file names to contents; \<open>statSync(filename).size\<close> is
  the length of the contents. The three \<open>readInt32LE\<close> calls are on buffers of four bytes.
\<close>

definition "constructor" :: "(string \<rightharpoonup> byte list) \<Rightarrow> string \<Rightarrow> error + parser" where
  "constructor files filename =
     (case files filename of
        None \<Rightarrow> Inl CouldNotFindFile
      | Some bytes \<Rightarrow>
          (if length bytes < 148 then Inl FileTooSmall
           else
             (let versionB = readSync bytes 4 0;
                  symbolB = readSync bytes 12 (64 + 4);
                  periodB = readSync bytes 4 (64 + 4 + 12);
                  startB = readSync bytes 4 148
              in (case readInt32LE versionB of Inl e \<Rightarrow> Inl e | Inr v \<Rightarrow>
                 (case readInt32LE periodB of Inl e \<Rightarrow> Inl e | Inr per \<Rightarrow>
                 (case readInt32LE startB of Inl e \<Rightarrow> Inl e | Inr st \<Rightarrow>
                    (let cbs = (if v = 400 then 44 else 60)
                     in Inr \<lparr> version = v, symbol = symbolB, period = per, start = st * 1000,
                              candleNumber = Fin 0, fd = bytes, byteOffset = 148 - cbs,
                              candleByteSize = cbs, filesize = int (length bytes) \<rparr>)))))))"

subsection \<open>readCandle\<close>

text \<open>The entries of \<open>parserFunctions\<close>; a type name that is not a key is a TypeError.\<close>

definition parserFunctions :: "int \<Rightarrow> string \<Rightarrow> byte list \<Rightarrow> error + val" where
  "parserFunctions ver ty buffer =
     (if ty = ''date'' then
        (case readInt32LE buffer of
           Inl e \<Rightarrow> Inl e
         | Inr ts \<Rightarrow> Inr (VDate (if ver = 400 then ts * 1000 else ts)))
      else if ty = ''double'' then
        (if length buffer < 8 then Inl RangeError else Inr (VDouble (take 8 buffer)))
      else if ty = ''i32'' then
        (case readInt32LE buffer of Inl e \<Rightarrow> Inl e | Inr n \<Rightarrow> Inr (VInt n))
      else if ty = ''undefined'' then Inr VUndefined
      else Inl TypeError)"

text \<open>\<open>x || d\<close> for an optional size or position (0 is falsy) and an optional type name
  (the empty string is falsy).\<close>

definition or_zero :: "nat option \<Rightarrow> nat" where
  "or_zero x = (case x of None \<Rightarrow> 0 | Some n \<Rightarrow> n)"

definition or_undefined :: "string option \<Rightarrow> string" where
  "or_undefined x = (case x of None \<Rightarrow> ''undefined'' | Some s \<Rightarrow> if s = [] then ''undefined'' else s)"

text \<open>The body of the \<open>forEach\<close> for one entry: the value stored under the key.\<close>

definition readField :: "parser \<Rightarrow> fieldData \<Rightarrow> error + val" where
  "readField p d =
     (if fvalue d \<noteq> VUndefined then Inr (fvalue d)
      else parserFunctions (version p) (or_undefined (ftype d))
             (readSync (fd p) (or_zero (fsize d))
                (nat (byteOffset p + int (or_zero (fposition d))))))"

text \<open>The \<open>forEach\<close>: the entries in order, stopping at the first exception.\<close>

fun readFields :: "parser \<Rightarrow> (string \<times> fieldData) list \<Rightarrow> candle \<Rightarrow> error + candle" where
  "readFields p [] candleData = Inr candleData"
| "readFields p ((key, d) # es) candleData =
     (case readField p d of
        Inl e \<Rightarrow> Inl e
      | Inr v \<Rightarrow> readFields p es (assign candleData key v))"

text \<open>\<open>Object.entries(parserData[this.version])\<close> is a TypeError for a version that the
  table does not have.\<close>

definition readCandle :: "parserData \<Rightarrow> parser \<Rightarrow> candle result" where
  "readCandle pd p =
     (let p1 = (if byteOffset p < 148 then p\<lparr>byteOffset := 148\<rparr> else p)
      in (case pd (version p1) of
            None \<Rightarrow> (Inl TypeError, p1)
          | Some entries \<Rightarrow> (readFields p1 entries [], p1)))"

subsection \<open>Positioning\<close>

definition getNextCandle :: "parserData \<Rightarrow> parser \<Rightarrow> candle result" where
  "getNextCandle pd p =
     (if byteOffset p + candleByteSize p \<le> filesize p
      then readCandle pd (p\<lparr>byteOffset := byteOffset p + candleByteSize p,
                             candleNumber := num_add (candleNumber p) (Fin 1)\<rparr>)
      else (Inl AlreadyAtEndOfFile, p))"

definition getPrevCandle :: "parserData \<Rightarrow> parser \<Rightarrow> candle result" where
  "getPrevCandle pd p =
     (if byteOffset p - candleByteSize p \<ge> 148
      then readCandle pd (p\<lparr>byteOffset := byteOffset p - candleByteSize p,
                             candleNumber := num_sub (candleNumber p) (Fin 1)\<rparr>)
      else (Inl AlreadyAtStartOfFile, p))"

text \<open>The constant \<open>newByteOffset\<close> of \<open>getCandleNumber\<close>.\<close>

definition newByteOffset :: "number \<Rightarrow> int \<Rightarrow> number" where
  "newByteOffset n cbs = num_add (Fin 148) (num_mul_int n cbs)"

text \<open>\<open>newByteOffset\<close> is compared with the file size and used for nothing else:
  \<open>this.byteOffset\<close> is not assigned.\<close>

definition getCandleNumber :: "parserData \<Rightarrow> parser \<Rightarrow> number \<Rightarrow> candle result" where
  "getCandleNumber pd p n =
     (let p1 = p\<lparr>candleNumber := n\<rparr>
      in if num_less_int (newByteOffset n (candleByteSize p1)) (filesize p1)
         then readCandle pd p1
         else (Inl FileTooSmall, p1))"

subsection \<open>getCandleAt\<close>

text \<open>
  \<open>date\<close> and \<open>startDate\<close> are the \<open>getTime()\<close> of the two Dates, integers of
  milliseconds that a double holds exactly, and \<open>i\<close> is the attempt counter. The recursion is not structural, so the function is defined in the
  option monad, where \<open>None\<close> stands for a call that does not return. In the last
  recursive call the argument \<open>candle.timestamp\<close> is \<open>undefined\<close> when the candle has
  no timestamp, and the default \<open>this.start\<close> takes its place; an argument that is
  not a Date fails at \<open>startDate.getTime()\<close>.
\<close>

partial_function (option) getCandleAt ::
  "parserData \<Rightarrow> parser \<Rightarrow> int \<Rightarrow> int \<Rightarrow> int \<Rightarrow> candle result option" where
  "getCandleAt pd p date startDate i =
     (let candleOffset = num_div (num_sub (Fin (of_int date)) (Fin (of_int startDate)))
                           (num_mul_int (Fin 60000) (period p)) in
      (case getCandleNumber pd p (num_add (candleNumber p) candleOffset) of
        (Inl e, p1) \<Rightarrow> Some (Inl e, p1)
      | (Inr candle, p1) \<Rightarrow>
          (case getTime (timestamp candle) of
             Inl e \<Rightarrow> Some (Inl e, p1)
           | Inr t \<Rightarrow>
               if t = date then Some (Inr candle, p1)
               else if i < 50 \<and> t \<noteq> 0 then getCandleAt pd p1 date t (i + 1)
               else if i < 50 then
                 (case getCandleNumber pd p1 (floor_half (candleNumber p1)) of
                    (Inl e, p2) \<Rightarrow> Some (Inl e, p2)
                  | (Inr candle2, p2) \<Rightarrow>
                      (case timestamp candle2 of
                         VUndefined \<Rightarrow> getCandleAt pd p2 date (start p2) (i + 1)
                       | VDate t2 \<Rightarrow> getCandleAt pd p2 date t2 (i + 1)
                       | _ \<Rightarrow> Some (Inl TypeError, p2)))
               else Some (Inl CandleNotFound, p1))))"

text \<open>The first two statements of \<open>getCandleAt\<close>: the candidate of a call.\<close>

definition candidate :: "parserData \<Rightarrow> parser \<Rightarrow> int \<Rightarrow> int \<Rightarrow> candle result" where
  "candidate pd p date startDate =
     getCandleNumber pd p
       (num_add (candleNumber p)
          (num_div (num_sub (Fin (of_int date)) (Fin (of_int startDate)))
             (num_mul_int (Fin 60000) (period p))))"

subsection \<open>The offsets that the methods produce\<close>

text \<open>The range that holds \<open>byteOffset\<close> from the constructor on: at most one record
  before the end of the header, with a record size that is positive.\<close>

definition cursorInRange :: "parser \<Rightarrow> bool" where
  "cursorInRange p \<longleftrightarrow> 0 < candleByteSize p \<and> 148 - candleByteSize p \<le> byteOffset p"

subsection \<open>The record at a byte offset\<close>

text \<open>What the \<open>forEach\<close> of \<open>readCandle\<close> produces when \<open>this.byteOffset\<close> is
  \<open>off\<close>: the candle decoded from the record at that offset. It is used at offsets
  from 148 on, the only ones at which \<open>readCandle\<close> reads.\<close>

definition decodeAt :: "parserData \<Rightarrow> parser \<Rightarrow> int \<Rightarrow> error + candle" where
  "decodeAt pd p off =
     (case pd (version p) of
        None \<Rightarrow> Inl TypeError
      | Some entries \<Rightarrow> readFields (p\<lparr>byteOffset := off\<rparr>) entries [])"

subsection \<open>An example file\<close>

text \<open>
  Modelled from the spec: the table of \<open>parser_data\<close> is not among the sources. This
  is the legacy layout as the spec gives it (44 bytes a record, version code 400): a
  timestamp of 4 bytes, then open, low, high, close and volume of 8 bytes each. No other
  version is in this table.
\<close>

definition timestampField :: fieldData where
  "timestampField =
     \<lparr>fvalue = VUndefined, fsize = Some 4, fposition = Some 0, ftype = Some ''date''\<rparr>"

definition legacyLayout :: "(string \<times> fieldData) list" where
  "legacyLayout =
     [(''timestamp'', timestampField),
      (''open'', \<lparr>fvalue = VUndefined, fsize = Some 8, fposition = Some 4, ftype = Some ''double''\<rparr>),
      (''low'', \<lparr>fvalue = VUndefined, fsize = Some 8, fposition = Some 12, ftype = Some ''double''\<rparr>),
      (''high'', \<lparr>fvalue = VUndefined, fsize = Some 8, fposition = Some 20, ftype = Some ''double''\<rparr>),
      (''close'', \<lparr>fvalue = VUndefined, fsize = Some 8, fposition = Some 28, ftype = Some ''double''\<rparr>),
      (''volume'', \<lparr>fvalue = VUndefined, fsize = Some 8, fposition = Some 36, ftype = Some ''double''\<rparr>)]"

definition exampleData :: parserData where
  "exampleData v = (if v = 400 then Some legacyLayout else None)"

text \<open>A header of 148 bytes: version 400, symbol \<open>EURUSD\<close> padded with zeros, period 60.\<close>

definition exampleHeader :: "byte list" where
  "exampleHeader = [144, 1, 0, 0] @ replicate 64 0 @ [69, 85, 82, 85, 83, 68, 0, 0, 0, 0, 0, 0]
      @ [60, 0, 0, 0] @ replicate 64 0"

text \<open>Two records, of timestamps 10000 and 13600 (seconds), all prices zero.\<close>

definition exampleRecords :: "byte list" where
  "exampleRecords = ([16, 39, 0, 0] @ replicate 40 0) @ ([32, 53, 0, 0] @ replicate 40 0)"

definition exampleFile :: "byte list" where
  "exampleFile = exampleHeader @ exampleRecords"

definition exampleFiles :: "string \<rightharpoonup> byte list" where
  "exampleFiles = [''EURUSD60.hst'' \<mapsto> exampleFile]"

text \<open>The parser that the constructor makes of the example file.\<close>

definition exampleParser :: parser where
  "exampleParser =
     \<lparr> version = 400, symbol = [69, 85, 82, 85, 83, 68, 0, 0, 0, 0, 0, 0], period = 60,
       start = 10000000, candleNumber = Fin 0, fd = exampleFile, byteOffset = 104,
       candleByteSize = 44, filesize = 236 \<rparr>"

definition zeros8 :: "byte list" where
  "zeros8 = replicate 8 0"

text \<open>The candles of the two records.\<close>

definition exampleCandle0 :: candle where
  "exampleCandle0 =
     [(''timestamp'', VDate 10000000), (''open'', VDouble zeros8), (''low'', VDouble zeros8),
      (''high'', VDouble zeros8), (''close'', VDouble zeros8), (''volume'', VDouble zeros8)]"

definition exampleCandle1 :: candle where
  "exampleCandle1 =
     [(''timestamp'', VDate 13600000), (''open'', VDouble zeros8), (''low'', VDouble zeros8),
      (''high'', VDouble zeros8), (''close'', VDouble zeros8), (''volume'', VDouble zeros8)]"

text \<open>A file of 208 zero bytes: its version code is 0, which the example table does not
  have, and the parser that the constructor makes of it.\<close>

definition zeroFiles :: "string \<rightharpoonup> byte list" where
  "zeroFiles = [''zero.hst'' \<mapsto> replicate 208 0]"

definition zeroParser :: parser where
  "zeroParser =
     \<lparr> version = 0, symbol = replicate 12 0, period = 0, start = 0, candleNumber = Fin 0,
       fd = replicate 208 0, byteOffset = 88, candleByteSize = 60, filesize = 208 \<rparr>"

text \<open>A file of three records an hour apart, the first at the epoch: timestamps 0, 3600
  and 7200 (seconds); the parser that the constructor makes of it, and its candles.\<close>

definition epochFile :: "byte list" where
  "epochFile = exampleHeader @ replicate 44 0 @ ([16, 14, 0, 0] @ replicate 40 0)
      @ ([32, 28, 0, 0] @ replicate 40 0)"

definition epochFiles :: "string \<rightharpoonup> byte list" where
  "epochFiles = [''EPOCH60.hst'' \<mapsto> epochFile]"

definition epochParser :: parser where
  "epochParser =
     \<lparr> version = 400, symbol = [69, 85, 82, 85, 83, 68, 0, 0, 0, 0, 0, 0], period = 60,
       start = 0, candleNumber = Fin 0, fd = epochFile, byteOffset = 104,
       candleByteSize = 44, filesize = 280 \<rparr>"

definition epochCandle :: "int \<Rightarrow> candle" where
  "epochCandle t =
     [(''timestamp'', VDate t), (''open'', VDouble zeros8), (''low'', VDouble zeros8),
      (''high'', VDouble zeros8), (''close'', VDouble zeros8), (''volume'', VDouble zeros8)]"

section \<open>Facts about the embedding\<close>

subsection \<open>Rounding\<close>

text \<open>An integer of magnitude below \<open>2 ^ 53\<close> is a double: rounding leaves it as it is.\<close>

lemma rne_of_int [simp]: "rne (of_int z) = z"
  by (simp add: rne_def)

lemma quotient_of_of_int: "quotient_of (of_int k) = (k, 1)"
  by (simp add: of_int_rat quotient_of_Fract)

lemma bitlen_1: "bitlen 1 = 1"
  using bitlen_twopow_add_eq [of 0 0] by simp

lemma ilog2_int_le:
  assumes "0 < k" "k < 2 ^ n"
  shows "ilog2 (of_int k) \<le> int n - 1"
proof -
  have "bitlen k \<le> int n" using assms by (simp add: bitlen_le_iff_power)
  then show ?thesis
    by (simp add: ilog2_def quotient_of_of_int bitlen_1 Let_def)
qed

lemma roundDouble_pos_int:
  assumes "0 < k" "k < 9007199254740992"
  shows "roundDouble (of_int k) = Fin (of_int k)"
proof -
  define u where "u = max (ilog2 (of_int k) - 52) (- 1074)"
  have "ilog2 (of_int k) \<le> 52" using ilog2_int_le [of k 53] assms by simp
  then have u: "u \<le> 0" "- 1074 \<le> u" by (simp_all add: u_def)
  define n where "n = nat (- u)"
  have p: "(2::rat) powi u = 1 / 2 ^ n"
    using u by (simp add: power_int_def n_def field_simps)
  have q: "(of_int k :: rat) / 2 powi u = of_int (k * 2 ^ n)"
    by (simp add: p)
  have y: "of_int (rne ((of_int k :: rat) / 2 powi u)) * (2::rat) powi u = of_int k"
    unfolding q rne_of_int by (simp add: p)
  have lt: "(of_int k :: rat) < 2 ^ 1024"
  proof -
    have "k < 2 ^ 1024" using assms(2) by (rule less_trans) simp
    then have "(of_int k :: rat) < of_int (2 ^ 1024)" by (simp only: of_int_less_iff)
    then show ?thesis by simp
  qed
  have a: "\<bar>of_int k :: rat\<bar> = of_int k" using assms(1) by simp
  show ?thesis
    using assms(1) y lt
    by (simp add: roundDouble_def Let_def a u_def [symmetric] not_le)
qed

lemma roundDouble_int:
  assumes "- 9007199254740992 < k" "k < 9007199254740992"
  shows "roundDouble (of_int k) = Fin (of_int k)"
proof -
  consider "k = 0" | "0 < k" | "k < 0" by linarith
  then show ?thesis
  proof cases
    case 1
    then show ?thesis by (simp add: roundDouble_def)
  next
    case 2
    then show ?thesis using assms by (simp add: roundDouble_pos_int)
  next
    case 3
    then have "0 < - k" "- k < 9007199254740992" using assms by simp_all
    from roundDouble_pos_int [OF this] 3 show ?thesis
      by (simp add: roundDouble_def Let_def split: if_splits)
  qed
qed

lemma roundDouble_numeral [simp]:
  "(numeral n :: int) < 9007199254740992 \<Longrightarrow> roundDouble (numeral n) = Fin (numeral n)"
  "(numeral n :: int) < 9007199254740992 \<Longrightarrow> roundDouble (- numeral n) = Fin (- numeral n)"
  "roundDouble 0 = Fin 0" "roundDouble 1 = Fin 1" "roundDouble (- 1) = Fin (- 1)"
  using roundDouble_int [of "numeral n"] roundDouble_int [of "- numeral n"]
    roundDouble_int [of 0] roundDouble_int [of 1] roundDouble_int [of "- 1"]
  by simp_all

text \<open>\<open>2 ^ 53 + 1\<close> is not a double: it lies half way between \<open>2 ^ 53\<close> and
  \<open>2 ^ 53 + 2\<close> and rounds to the first, whose significand is even.\<close>

lemma roundDouble_2_53_plus_1: "roundDouble 9007199254740993 = Fin 9007199254740992"
proof -
  have b: "bitlen 9007199254740993 = 54"
    using bitlen_twopow_add_eq [of 1 53] by simp
  have e: "ilog2 9007199254740993 = 53"
    by (simp add: ilog2_def b bitlen_1)
  have f: "\<lfloor>9007199254740993 / 2 :: rat\<rfloor> = 4503599627370496"
    using floor_divide_of_int_eq [of 9007199254740993 2, where ?'a = rat] by simp
  have r: "rne (9007199254740993 / 2) = 4503599627370496"
    by (simp add: rne_def f)
  show ?thesis
    by (simp add: roundDouble_def e r)
qed

text \<open>The position of the index \<open>2 ^ 53\<close> with records of 44 bytes is not below 236.\<close>

lemma newByteOffset_2_53:
  "\<not> num_less_int (newByteOffset (Fin 9007199254740992) 44) 236"
  by code_simp

text \<open>Rounding decides the size check: the position of the index \<open>2 - 2 ^ - 52\<close>, the
  double just below 2, is exactly 236 with records of 44 bytes, as in the code, where the
  exact value of \<open>148 + index * 44\<close> is below 236.\<close>

lemma newByteOffset_rounds_up:
  "newByteOffset (Fin (9007199254740991 / 4503599627370496)) 44 = Fin 236"
  by code_simp

text \<open>One step up and one step down, on an integer that leaves room for both.\<close>

lemma num_add_sub_one:
  assumes "- 9007199254740992 < k" "k + 1 < 9007199254740992"
  shows "num_sub (num_add (Fin (of_int k)) (Fin 1)) (Fin 1) = Fin (of_int k)"
proof -
  have "num_add (Fin (of_int k)) (Fin 1) = roundDouble (of_int (k + 1))"
    by simp
  also have "\<dots> = Fin (of_int (k + 1))"
    using assms by (intro roundDouble_int) simp_all
  finally have up: "num_add (Fin (of_int k)) (Fin 1) = Fin (of_int (k + 1))" .
  have "num_sub (Fin (of_int (k + 1))) (Fin 1) = roundDouble (of_int k)"
    by (simp add: num_sub_def)
  also have "\<dots> = Fin (of_int k)"
    using assms by (intro roundDouble_int) simp_all
  finally show ?thesis by (simp only: up)
qed

lemma floor_half_2: "floor_half (Fin 2) = Fin 1"
  by (simp add: floor_half_def)


subsection \<open>The example\<close>

lemma length_exampleFile: "length exampleFile = 236"
  by (simp add: exampleFile_def exampleHeader_def exampleRecords_def)

lemma constructor_example: "constructor exampleFiles ''EURUSD60.hst'' = Inr exampleParser"
  by (simp add: constructor_def exampleFiles_def length_exampleFile exampleParser_def)
     (simp add: readSync_def exampleFile_def exampleHeader_def exampleRecords_def int32LE_def)

lemma decodeAt_example_148: "decodeAt exampleData exampleParser 148 = Inr exampleCandle0"
  by (simp add: decodeAt_def exampleData_def legacyLayout_def timestampField_def
      exampleParser_def readField_def or_zero_def or_undefined_def parserFunctions_def
      readSync_def exampleFile_def exampleHeader_def exampleRecords_def int32LE_def
      exampleCandle0_def zeros8_def)

lemma decodeAt_example_192: "decodeAt exampleData exampleParser 192 = Inr exampleCandle1"
  by (simp add: decodeAt_def exampleData_def legacyLayout_def timestampField_def
      exampleParser_def readField_def or_zero_def or_undefined_def parserFunctions_def
      readSync_def exampleFile_def exampleHeader_def exampleRecords_def int32LE_def
      exampleCandle1_def zeros8_def)

lemma readFields_cong:
  "version p = version q \<Longrightarrow> fd p = fd q \<Longrightarrow> byteOffset p = byteOffset q \<Longrightarrow>
   readFields p es acc = readFields q es acc"
  by (induction es arbitrary: acc) (auto simp: readField_def split: sum.splits)

lemma readCandle_decodeAt:
  "readCandle pd p =
     (decodeAt pd p (max 148 (byteOffset p)), p\<lparr>byteOffset := max 148 (byteOffset p)\<rparr>)"
proof (cases "byteOffset p < 148")
  case True
  then show ?thesis
    by (simp add: readCandle_def decodeAt_def max_def Let_def split: option.splits)
next
  case False
  then have "p\<lparr>byteOffset := max 148 (byteOffset p)\<rparr> = p"
    by (simp add: max_def)
  moreover have "readFields (p\<lparr>byteOffset := max 148 (byteOffset p)\<rparr>) es [] = readFields p es []" for es
    using False by (intro readFields_cong) (simp_all add: max_def)
  ultimately show ?thesis using False
    by (simp add: readCandle_def decodeAt_def Let_def split: option.splits)
qed

lemma readInt32LE_isl: "isl (readInt32LE b) \<longleftrightarrow> length b < 4"
  by (cases b rule: readInt32LE.cases) auto

lemma length_readSync: "length (readSync bytes n pos) = n"
  by (simp add: readSync_def Let_def)

lemma parserFunctions_error:
  "parserFunctions v ty b = Inl e \<Longrightarrow> e = TypeError \<or> e = RangeError"
  by (cases b rule: readInt32LE.cases) (auto simp: parserFunctions_def split: if_splits)

lemma readField_error: "readField p d = Inl e \<Longrightarrow> e = TypeError \<or> e = RangeError"
  by (auto simp: readField_def split: if_splits dest: parserFunctions_error)

lemma readFields_error: "readFields p es acc = Inl e \<Longrightarrow> e = TypeError \<or> e = RangeError"
  by (induction es arbitrary: acc) (auto split: sum.splits dest: readField_error)

lemma decodeAt_error: "decodeAt pd p off = Inl e \<Longrightarrow> e = TypeError \<or> e = RangeError"
  by (auto simp: decodeAt_def split: option.splits dest: readFields_error)

lemma parserFunctions_isl:
  "length b = length b' \<Longrightarrow> isl (parserFunctions v ty b) = isl (parserFunctions v' ty b')"
  using readInt32LE_isl [of b] readInt32LE_isl [of b']
  by (auto simp: parserFunctions_def isl_def split: sum.splits)

lemma readField_isl: "isl (readField p d) = isl (readField q d)"
  by (simp add: readField_def parserFunctions_isl [of _ _ "version p" _ "version q"] length_readSync)

lemma readFields_isl: "isl (readFields p es acc) = isl (readFields q es acc')"
proof (induction es arbitrary: acc acc')
  case Nil
  show ?case by simp
next
  case (Cons x es)
  obtain k d where x: "x = (k, d)" by (cases x)
  show ?case
    using readField_isl [of p d q] Cons.IH
    by (auto simp: x isl_def split: sum.splits)
qed

lemma decodeAt_isl: "isl (decodeAt pd p off) = isl (decodeAt pd p off')"
  by (simp add: decodeAt_def readFields_isl [of "p\<lparr>byteOffset := off\<rparr>" _ _ "p\<lparr>byteOffset := off'\<rparr>"]
      split: option.splits)

lemma decodeAt_update [simp]:
  "decodeAt pd (p\<lparr>byteOffset := b\<rparr>) off = decodeAt pd p off"
  "decodeAt pd (p\<lparr>candleNumber := n\<rparr>) off = decodeAt pd p off"
  by (auto intro!: readFields_cong simp: decodeAt_def split: option.splits)

lemma exampleParser_fields [simp]:
  "version exampleParser = 400" "byteOffset exampleParser = 104"
  "candleByteSize exampleParser = 44" "filesize exampleParser = 236"
  "candleNumber exampleParser = Fin 0" "period exampleParser = 60"
  "start exampleParser = 10000000"
  by (simp_all add: exampleParser_def)

lemma zeroParser_fields [simp]:
  "version zeroParser = 0" "byteOffset zeroParser = 88"
  "candleByteSize zeroParser = 60" "filesize zeroParser = 208"
  "candleNumber zeroParser = Fin 0"
  by (simp_all add: zeroParser_def)

lemma replicate_4: "replicate 4 x = [x, x, x, x]"
  by (simp add: numeral_eq_Suc)

lemma constructor_zero: "constructor zeroFiles ''zero.hst'' = Inr zeroParser"
  by (simp add: constructor_def zeroFiles_def zeroParser_def)
     (simp add: readSync_def replicate_4 int32LE_def)

subsection \<open>The positioning methods in terms of the record decoded\<close>

lemma getNextCandle_eq:
  "getNextCandle pd p =
     (if byteOffset p + candleByteSize p \<le> filesize p
      then (decodeAt pd p (max 148 (byteOffset p + candleByteSize p)),
            p\<lparr>byteOffset := max 148 (byteOffset p + candleByteSize p),
              candleNumber := num_add (candleNumber p) (Fin 1)\<rparr>)
      else (Inl AlreadyAtEndOfFile, p))"
  by (simp add: getNextCandle_def readCandle_decodeAt)

lemma getPrevCandle_eq:
  "getPrevCandle pd p =
     (if 148 \<le> byteOffset p - candleByteSize p
      then (decodeAt pd p (byteOffset p - candleByteSize p),
            p\<lparr>byteOffset := byteOffset p - candleByteSize p,
              candleNumber := num_sub (candleNumber p) (Fin 1)\<rparr>)
      else (Inl AlreadyAtStartOfFile, p))"
  by (simp add: getPrevCandle_def readCandle_decodeAt max_def)

lemma getCandleNumber_eq:
  "getCandleNumber pd p n =
     (if num_less_int (newByteOffset n (candleByteSize p)) (filesize p)
      then (decodeAt pd p (max 148 (byteOffset p)),
            p\<lparr>byteOffset := max 148 (byteOffset p), candleNumber := n\<rparr>)
      else (Inl FileTooSmall, p\<lparr>candleNumber := n\<rparr>))"
  by (simp add: getCandleNumber_def readCandle_decodeAt Let_def)

section \<open>The cursor\<close>

text \<open>
  C1. After a successful positioning call the stored \<open>byteOffset\<close> should be
  \<open>148 + candleNumber * candleByteSize\<close>, the position that \<open>getCandleNumber\<close>
  computes as \<open>newByteOffset\<close>. On the parser just made of the example file it is not:
  \<open>getNextCandle\<close> returns the first record and leaves \<open>candleNumber = 1\<close> with
  \<open>byteOffset = 148\<close>, and \<open>getCandleNumber(1)\<close> leaves the same state, having
  returned the first record too, while \<open>148 + 1 * 44 = 192\<close>.
\<close>

theorem positioning_offset_mismatch:
  "constructor exampleFiles ''EURUSD60.hst'' = Inr exampleParser
   \<and> getNextCandle exampleData exampleParser
       = (Inr exampleCandle0, exampleParser\<lparr>byteOffset := 148, candleNumber := Fin 1\<rparr>)
   \<and> getCandleNumber exampleData exampleParser (Fin 1)
       = (Inr exampleCandle0, exampleParser\<lparr>byteOffset := 148, candleNumber := Fin 1\<rparr>)
   \<and> newByteOffset (Fin 1) (candleByteSize exampleParser) = Fin 192"
  by (simp add: constructor_example getNextCandle_eq getCandleNumber_eq decodeAt_example_148
      newByteOffset_def)

text \<open>The candle that \<open>getCandleNumber\<close> returns does not depend on its argument: two
  indices that pass the size check get the same one.\<close>

lemma getCandleNumber_ignores_index:
  "num_less_int (newByteOffset n (candleByteSize p)) (filesize p) \<Longrightarrow>
   num_less_int (newByteOffset m (candleByteSize p)) (filesize p) \<Longrightarrow>
   fst (getCandleNumber pd p n) = fst (getCandleNumber pd p m)"
  by (simp add: getCandleNumber_eq)

text \<open>
  C2. \<open>getCandleNumber(index)\<close> should decode the record at \<open>148 + index *
  candleByteSize\<close>. On the parser just made of the example file, \<open>getCandleNumber(1)\<close>
  passes the size check with the position 192 and returns the record at offset 148,
  which is not the record at offset 192.
\<close>

theorem getCandleNumber_decodes_stored_offset:
  "getCandleNumber exampleData exampleParser (Fin 1)
     = (Inr exampleCandle0, exampleParser\<lparr>byteOffset := 148, candleNumber := Fin 1\<rparr>)
   \<and> newByteOffset (Fin 1) (candleByteSize exampleParser) = Fin 192
   \<and> decodeAt exampleData exampleParser 192 = Inr exampleCandle1
   \<and> exampleCandle0 \<noteq> exampleCandle1"
  by (simp add: getCandleNumber_eq decodeAt_example_148 decodeAt_example_192
      newByteOffset_def exampleCandle0_def exampleCandle1_def)

text \<open>
  C3, as stated, fails. On the parser just made of the example file,
  \<open>getCandleNumber(1000)\<close> fails with the too-small error and leaves
  \<open>candleNumber = 1000\<close>, where it was 0. On the parser just made of a file whose
  version the table does not have, \<open>getNextCandle\<close> fails inside the decode, with a
  TypeError, after the cursor has moved from offset 88 to offset 148.
\<close>

theorem failed_call_moves_cursor:
  "getCandleNumber exampleData exampleParser (Fin 1000)
     = (Inl FileTooSmall, exampleParser\<lparr>candleNumber := Fin 1000\<rparr>)
   \<and> candleNumber exampleParser = Fin 0
   \<and> constructor zeroFiles ''zero.hst'' = Inr zeroParser
   \<and> getNextCandle exampleData zeroParser
     = (Inl TypeError, zeroParser\<lparr>byteOffset := 148, candleNumber := Fin 1\<rparr>)
   \<and> byteOffset zeroParser = 88"
  by (simp add: getCandleNumber_eq getNextCandle_eq newByteOffset_def constructor_zero
      decodeAt_def exampleData_def)

text \<open>
  C3, amended. For every parser state: when \<open>getNextCandle\<close> fails with the end-of-file
  error, or \<open>getPrevCandle\<close> with the start-of-file error, the parser state after the
  call is the state before it; when \<open>getCandleNumber\<close> fails with the too-small error,
  \<open>byteOffset\<close> is what it was before the call.
\<close>

theorem bound_failure_keeps_cursor:
  "(fst (getNextCandle pd p) = Inl AlreadyAtEndOfFile \<longrightarrow> snd (getNextCandle pd p) = p)
   \<and> (fst (getPrevCandle pd p) = Inl AlreadyAtStartOfFile \<longrightarrow> snd (getPrevCandle pd p) = p)
   \<and> (fst (getCandleNumber pd p n) = Inl FileTooSmall \<longrightarrow>
        byteOffset (snd (getCandleNumber pd p n)) = byteOffset p)"
  using decodeAt_error [of pd p "max 148 (byteOffset p + candleByteSize p)"]
        decodeAt_error [of pd p "byteOffset p - candleByteSize p"]
        decodeAt_error [of pd p "max 148 (byteOffset p)"]
  by (auto simp: getNextCandle_eq getPrevCandle_eq getCandleNumber_eq)

text \<open>On the example: \<open>getNextCandle\<close> at offset 236, \<open>getPrevCandle\<close> on the
  parser just made, and \<open>getCandleNumber(2)\<close> fail with these errors.\<close>

theorem bound_failure_keeps_cursor_witness:
  "fst (getNextCandle exampleData (exampleParser\<lparr>byteOffset := 236\<rparr>)) = Inl AlreadyAtEndOfFile
   \<and> snd (getNextCandle exampleData (exampleParser\<lparr>byteOffset := 236\<rparr>))
       = exampleParser\<lparr>byteOffset := 236\<rparr>
   \<and> fst (getPrevCandle exampleData exampleParser) = Inl AlreadyAtStartOfFile
   \<and> snd (getPrevCandle exampleData exampleParser) = exampleParser
   \<and> fst (getCandleNumber exampleData exampleParser (Fin 2)) = Inl FileTooSmall
   \<and> byteOffset (snd (getCandleNumber exampleData exampleParser (Fin 2))) = byteOffset exampleParser"
  using bound_failure_keeps_cursor [of exampleData "exampleParser\<lparr>byteOffset := 236\<rparr>" "Fin 2"]
        bound_failure_keeps_cursor [of exampleData exampleParser "Fin 2"]
  by (simp add: getNextCandle_eq getPrevCandle_eq getCandleNumber_eq newByteOffset_def)

section \<open>The constructor\<close>

text \<open>
  C7. A parser that the constructor returns has \<open>candleByteSize\<close> 44 when the version
  read is 400 and 60 for every other version, \<open>byteOffset = 148 - candleByteSize\<close>
  and \<open>candleNumber = 0\<close>.
\<close>

theorem constructor_cursor:
  "constructor files filename = Inr p \<Longrightarrow>
     candleByteSize p = (if version p = 400 then 44 else 60)
     \<and> byteOffset p = 148 - candleByteSize p
     \<and> candleNumber p = Fin 0"
  by (auto simp: constructor_def Let_def split: option.splits if_splits sum.splits)

text \<open>The example file has version 400, the file of zeros has version 0.\<close>

theorem constructor_cursor_witness:
  "constructor exampleFiles ''EURUSD60.hst'' = Inr exampleParser
   \<and> candleByteSize exampleParser = 44 \<and> version exampleParser = 400
   \<and> byteOffset exampleParser = 148 - 44 \<and> candleNumber exampleParser = Fin 0
   \<and> constructor zeroFiles ''zero.hst'' = Inr zeroParser
   \<and> candleByteSize zeroParser = 60 \<and> version zeroParser \<noteq> 400
   \<and> byteOffset zeroParser = 148 - 60 \<and> candleNumber zeroParser = Fin 0"
  using constructor_cursor [OF constructor_example] constructor_cursor [OF constructor_zero]
  by (simp add: constructor_example constructor_zero)

section \<open>Sequential positioning\<close>

text \<open>
  The two bound checks, for every parser state. \<open>getNextCandle\<close> fails with the
  end-of-file error exactly when \<open>byteOffset + candleByteSize\<close> exceeds \<open>filesize\<close>;
  otherwise it advances \<open>byteOffset\<close> by one record and \<open>candleNumber\<close> by one, and
  decodes the record at the new offset (in a state where one record further is still below
  148, which is outside \<open>cursorInRange\<close>, \<open>readCandle\<close> makes the new offset 148).
  \<open>getPrevCandle\<close> fails with the start-of-file error exactly when
  \<open>byteOffset - candleByteSize\<close> is below 148; otherwise it retreats by one record and
  decodes there. So \<open>getPrevCandle\<close> fails on a parser just constructed and with the
  cursor on the first record of the file (\<open>byteOffset = 148\<close>). Both checks read
  \<open>byteOffset\<close>, neither reads \<open>candleNumber\<close>.
\<close>

lemma next_prev_bounds:
  "(fst (getNextCandle pd p) = Inl AlreadyAtEndOfFile
      \<longleftrightarrow> filesize p < byteOffset p + candleByteSize p)
   \<and> (byteOffset p + candleByteSize p \<le> filesize p \<longrightarrow>
        byteOffset (snd (getNextCandle pd p)) = max 148 (byteOffset p + candleByteSize p)
        \<and> candleNumber (snd (getNextCandle pd p)) = num_add (candleNumber p) (Fin 1)
        \<and> fst (getNextCandle pd p) = decodeAt pd p (byteOffset (snd (getNextCandle pd p))))
   \<and> (byteOffset p + candleByteSize p \<le> filesize p \<and> 148 \<le> byteOffset p + candleByteSize p
        \<longrightarrow> byteOffset (snd (getNextCandle pd p)) = byteOffset p + candleByteSize p)
   \<and> (fst (getPrevCandle pd p) = Inl AlreadyAtStartOfFile
      \<longleftrightarrow> byteOffset p - candleByteSize p < 148)
   \<and> (148 \<le> byteOffset p - candleByteSize p \<longrightarrow>
        byteOffset (snd (getPrevCandle pd p)) = byteOffset p - candleByteSize p
        \<and> candleNumber (snd (getPrevCandle pd p)) = num_sub (candleNumber p) (Fin 1)
        \<and> fst (getPrevCandle pd p) = decodeAt pd p (byteOffset (snd (getPrevCandle pd p))))
   \<and> (constructor files filename = Inr p \<longrightarrow>
        fst (getPrevCandle pd p) = Inl AlreadyAtStartOfFile)
   \<and> (byteOffset p = 148 \<and> 0 < candleByteSize p \<longrightarrow>
        fst (getPrevCandle pd p) = Inl AlreadyAtStartOfFile)"
proof -
  have a: "fst (getNextCandle pd p) = Inl AlreadyAtEndOfFile
      \<longleftrightarrow> filesize p < byteOffset p + candleByteSize p"
    using decodeAt_error [of pd p "max 148 (byteOffset p + candleByteSize p)"]
    by (auto simp: getNextCandle_eq)
  have b: "fst (getPrevCandle pd p) = Inl AlreadyAtStartOfFile
      \<longleftrightarrow> byteOffset p - candleByteSize p < 148"
    using decodeAt_error [of pd p "byteOffset p - candleByteSize p"]
    by (auto simp: getPrevCandle_eq)
  have c: "fst (getPrevCandle pd p) = Inl AlreadyAtStartOfFile"
    if "constructor files filename = Inr p"
  proof -
    have "candleByteSize p = 44 \<or> candleByteSize p = 60" "byteOffset p = 148 - candleByteSize p"
      using that
      by (auto simp: constructor_def Let_def split: option.splits if_splits sum.splits)
    then show ?thesis by (auto simp: getPrevCandle_eq)
  qed
  show ?thesis
    using a b c by (simp add: getNextCandle_eq getPrevCandle_eq)
qed

text \<open>
  C8. \<open>getPrevCandle\<close> at record index 0 should fail with the start-of-file error. On
  the parser made of the example file, two calls of \<open>getNextCandle\<close> and then
  \<open>getCandleNumber(0)\<close> leave \<open>candleNumber = 0\<close> with \<open>byteOffset = 192\<close>, since
  \<open>getCandleNumber\<close> does not move the offset; there \<open>getPrevCandle\<close> succeeds,
  returns the first record and leaves \<open>candleNumber = -1\<close>.
\<close>

theorem getPrevCandle_succeeds_at_index_0:
  "constructor exampleFiles ''EURUSD60.hst'' = Inr exampleParser
   \<and> getNextCandle exampleData exampleParser
       = (Inr exampleCandle0, exampleParser\<lparr>byteOffset := 148, candleNumber := Fin 1\<rparr>)
   \<and> getNextCandle exampleData (exampleParser\<lparr>byteOffset := 148, candleNumber := Fin 1\<rparr>)
       = (Inr exampleCandle1, exampleParser\<lparr>byteOffset := 192, candleNumber := Fin 2\<rparr>)
   \<and> getCandleNumber exampleData (exampleParser\<lparr>byteOffset := 192, candleNumber := Fin 2\<rparr>) (Fin 0)
       = (Inr exampleCandle1, exampleParser\<lparr>byteOffset := 192, candleNumber := Fin 0\<rparr>)
   \<and> getPrevCandle exampleData (exampleParser\<lparr>byteOffset := 192, candleNumber := Fin 0\<rparr>)
       = (Inr exampleCandle0, exampleParser\<lparr>byteOffset := 148, candleNumber := Fin (- 1)\<rparr>)"
  by (simp add: constructor_example getNextCandle_eq getPrevCandle_eq getCandleNumber_eq
      decodeAt_example_148 decodeAt_example_192 newByteOffset_def num_sub_def)

text \<open>
  C9, as stated, fails. On the parser just made of the example file \<open>getNextCandle\<close>
  succeeds and moves the cursor from offset 104, \<open>candleNumber = 0\<close>, to offset 148,
  \<open>candleNumber = 1\<close>; the \<open>getPrevCandle\<close> that follows fails with the
  start-of-file error and the cursor stays there. And with the cursor on the first record
  and \<open>candleNumber = 2 ^ 53\<close>, the state that a failed \<open>getCandleNumber(2 ** 53)\<close>
  leaves there, both calls succeed and \<open>byteOffset\<close> is back at 148, but
  \<open>candleNumber\<close> is \<open>2 ^ 53 - 1\<close>: the sum \<open>2 ^ 53 + 1\<close> rounds to \<open>2 ^ 53\<close>.
\<close>

theorem next_then_prev_not_round_trip:
  "getNextCandle exampleData exampleParser
     = (Inr exampleCandle0, exampleParser\<lparr>byteOffset := 148, candleNumber := Fin 1\<rparr>)
   \<and> getPrevCandle exampleData (exampleParser\<lparr>byteOffset := 148, candleNumber := Fin 1\<rparr>)
     = (Inl AlreadyAtStartOfFile, exampleParser\<lparr>byteOffset := 148, candleNumber := Fin 1\<rparr>)
   \<and> byteOffset exampleParser = 104 \<and> candleNumber exampleParser = Fin 0
   \<and> getCandleNumber exampleData (exampleParser\<lparr>byteOffset := 148, candleNumber := Fin 1\<rparr>)
        (Fin 9007199254740992)
     = (Inl FileTooSmall,
        exampleParser\<lparr>byteOffset := 148, candleNumber := Fin 9007199254740992\<rparr>)
   \<and> getNextCandle exampleData
        (exampleParser\<lparr>byteOffset := 148, candleNumber := Fin 9007199254740992\<rparr>)
     = (Inr exampleCandle1,
        exampleParser\<lparr>byteOffset := 192, candleNumber := Fin 9007199254740992\<rparr>)
   \<and> getPrevCandle exampleData
        (exampleParser\<lparr>byteOffset := 192, candleNumber := Fin 9007199254740992\<rparr>)
     = (Inr exampleCandle0,
        exampleParser\<lparr>byteOffset := 148, candleNumber := Fin 9007199254740991\<rparr>)"
  using newByteOffset_2_53
  by (simp add: getNextCandle_eq getPrevCandle_eq getCandleNumber_eq decodeAt_example_148
      decodeAt_example_192 roundDouble_2_53_plus_1 num_sub_def)

text \<open>
  C9, amended. For every parser state with \<open>byteOffset\<close> at least 148 (the cursor is
  on a record) and a \<open>candleByteSize\<close> that is not negative (the constructor sets 44 or
  60), a successful \<open>getNextCandle\<close> immediately followed by \<open>getPrevCandle\<close>:
  the second call succeeds too and \<open>byteOffset\<close> is what it was before the first;
  \<open>candleNumber\<close> is its value plus one, minus one, in double arithmetic, which is its
  value, and the whole parser state the state before the two calls, when it is an integer
  \<open>k\<close> with \<open>- 2 ^ 53 < k\<close> and \<open>k + 1 < 2 ^ 53\<close>.
\<close>

theorem next_then_prev_round_trip:
  assumes "148 \<le> byteOffset p" "0 \<le> candleByteSize p"
    and "getNextCandle pd p = (Inr c, p1)"
  shows "(\<exists>c'. fst (getPrevCandle pd p1) = Inr c')
     \<and> byteOffset (snd (getPrevCandle pd p1)) = byteOffset p
     \<and> candleNumber (snd (getPrevCandle pd p1))
         = num_sub (num_add (candleNumber p) (Fin 1)) (Fin 1)
     \<and> (\<forall>k. candleNumber p = Fin (of_int k) \<and> - 9007199254740992 < k
            \<and> k + 1 < 9007199254740992 \<longrightarrow> snd (getPrevCandle pd p1) = p)"
proof -
  from assms have le: "byteOffset p + candleByteSize p \<le> filesize p"
    by (auto simp: getNextCandle_eq split: if_splits)
  with assms have p1: "p1 = p\<lparr>byteOffset := byteOffset p + candleByteSize p,
      candleNumber := num_add (candleNumber p) (Fin 1)\<rparr>"
    and c: "decodeAt pd p (byteOffset p + candleByteSize p) = Inr c"
    by (auto simp: getNextCandle_eq max_def split: if_splits)
  have "isl (decodeAt pd p (byteOffset p)) = isl (decodeAt pd p (byteOffset p + candleByteSize p))"
    by (rule decodeAt_isl)
  with c obtain c' where c': "decodeAt pd p (byteOffset p) = Inr c'"
    by (cases "decodeAt pd p (byteOffset p)") auto
  have s: "snd (getPrevCandle pd p1)
      = p\<lparr>candleNumber := num_sub (num_add (candleNumber p) (Fin 1)) (Fin 1)\<rparr>"
    using assms(1) by (simp add: p1 getPrevCandle_eq)
  have f: "fst (getPrevCandle pd p1) = Inr c'"
    using assms(1) c' by (simp add: p1 getPrevCandle_eq)
  have k: "snd (getPrevCandle pd p1) = p"
    if "candleNumber p = Fin (of_int k)" "- 9007199254740992 < k" "k + 1 < 9007199254740992"
    for k
    using num_add_sub_one [OF that(2,3)] that(1) by (simp add: s)
  show ?thesis
    using f k by (simp add: s)
qed

text \<open>On the example, from the first record to the second and back, with
  \<open>candleNumber = 1\<close>.\<close>

theorem next_then_prev_round_trip_witness:
  "148 \<le> byteOffset (exampleParser\<lparr>byteOffset := 148, candleNumber := Fin 1\<rparr>)
   \<and> 0 \<le> candleByteSize (exampleParser\<lparr>byteOffset := 148, candleNumber := Fin 1\<rparr>)
   \<and> getNextCandle exampleData (exampleParser\<lparr>byteOffset := 148, candleNumber := Fin 1\<rparr>)
       = (Inr exampleCandle1, exampleParser\<lparr>byteOffset := 192, candleNumber := Fin 2\<rparr>)
   \<and> candleNumber (exampleParser\<lparr>byteOffset := 148, candleNumber := Fin 1\<rparr>) = Fin (of_int 1)
   \<and> - 9007199254740992 < (1::int) \<and> (1::int) + 1 < 9007199254740992
   \<and> getPrevCandle exampleData (exampleParser\<lparr>byteOffset := 192, candleNumber := Fin 2\<rparr>)
       = (Inr exampleCandle0, exampleParser\<lparr>byteOffset := 148, candleNumber := Fin 1\<rparr>)"
proof -
  have n: "getNextCandle exampleData (exampleParser\<lparr>byteOffset := 148, candleNumber := Fin 1\<rparr>)
       = (Inr exampleCandle1, exampleParser\<lparr>byteOffset := 192, candleNumber := Fin 2\<rparr>)"
    by (simp add: getNextCandle_eq decodeAt_example_192)
  show ?thesis
    using next_then_prev_round_trip [OF _ _ n]
    by (simp add: n getPrevCandle_eq decodeAt_example_148 num_sub_def)
qed

section \<open>The search by timestamp\<close>

lemma getCandleAt_unfold:
  "getCandleAt pd p date startDate i =
      (case candidate pd p date startDate of
        (Inl e, p1) \<Rightarrow> Some (Inl e, p1)
      | (Inr candle, p1) \<Rightarrow>
          (case getTime (timestamp candle) of
             Inl e \<Rightarrow> Some (Inl e, p1)
           | Inr t \<Rightarrow>
               if t = date then Some (Inr candle, p1)
               else if i < 50 \<and> t \<noteq> 0 then getCandleAt pd p1 date t (i + 1)
               else if i < 50 then
                 (case getCandleNumber pd p1 (floor_half (candleNumber p1)) of
                    (Inl e, p2) \<Rightarrow> Some (Inl e, p2)
                  | (Inr candle2, p2) \<Rightarrow>
                      (case timestamp candle2 of
                         VUndefined \<Rightarrow> getCandleAt pd p2 date (start p2) (i + 1)
                       | VDate t2 \<Rightarrow> getCandleAt pd p2 date t2 (i + 1)
                       | _ \<Rightarrow> Some (Inl TypeError, p2)))
               else Some (Inl CandleNotFound, p1)))"
  by (subst getCandleAt.simps) (simp add: candidate_def Let_def)

text \<open>
  \<open>getCandleAt\<close> returns, for every table, parser state, target, anchor and counter:
  with a candle whose timestamp is the target, or with an error. The induction is on
  \<open>50 - i\<close>.
\<close>

lemma getCandleAt_returns:
  "\<exists>r. getCandleAt pd p date startDate i = Some r
     \<and> (\<forall>c p'. r = (Inr c, p') \<longrightarrow> getTime (timestamp c) = Inr date)"
proof -
  define Q :: "candle result option \<Rightarrow> bool" where
    "Q x \<longleftrightarrow> (\<exists>r. x = Some r \<and> (\<forall>c p'. r = (Inr c, p') \<longrightarrow> getTime (timestamp c) = Inr date))"
    for x
  have err: "Q (Some (Inl e, q))" for e q
    by (simp add: Q_def)
  have found: "Q (Some (Inr c, q))" if "getTime (timestamp c) = Inr date" for c q
    using that by (simp add: Q_def)
  have "Q (getCandleAt pd p date startDate i)"
  proof (induction "nat (50 - i)" arbitrary: p startDate i rule: less_induct)
    case less
    have IH: "Q (getCandleAt pd p' date sd' (i + 1))" if "i < 50" for p' sd'
      using that by (intro less) simp
    show ?case
      by (subst getCandleAt_unfold)
         (simp add: err found IH split: prod.splits sum.splits val.splits)
  qed
  then show ?thesis by (simp add: Q_def)
qed

text \<open>With the counter at 50 or more there is no further call: a candidate whose
  timestamp is not the target ends the search with the candle-not-found error.\<close>

lemma getCandleAt_exhausted:
  "50 \<le> i \<Longrightarrow> candidate pd p date startDate = (Inr c, p1) \<Longrightarrow>
   getTime (timestamp c) = Inr t \<Longrightarrow> t \<noteq> date \<Longrightarrow>
   getCandleAt pd p date startDate i = Some (Inl CandleNotFound, p1)"
  by (subst getCandleAt_unfold) simp

subsection \<open>On the file of three records\<close>

lemma epochParser_fields [simp]:
  "version epochParser = 400" "byteOffset epochParser = 104"
  "candleByteSize epochParser = 44" "filesize epochParser = 280"
  "candleNumber epochParser = Fin 0" "period epochParser = 60" "start epochParser = 0"
  by (simp_all add: epochParser_def)

lemma length_epochFile: "length epochFile = 280"
  by (simp add: epochFile_def exampleHeader_def)

lemma constructor_epoch: "constructor epochFiles ''EPOCH60.hst'' = Inr epochParser"
  by (simp add: constructor_def epochFiles_def length_epochFile epochParser_def)
     (simp add: readSync_def epochFile_def exampleHeader_def int32LE_def replicate_4)

lemma decodeAt_epoch:
  "decodeAt exampleData epochParser 148 = Inr (epochCandle 0)"
  "decodeAt exampleData epochParser 192 = Inr (epochCandle 3600000)"
  "decodeAt exampleData epochParser 236 = Inr (epochCandle 7200000)"
  by (simp_all add: decodeAt_def exampleData_def legacyLayout_def timestampField_def
      epochParser_def readField_def or_zero_def or_undefined_def parserFunctions_def
      readSync_def epochFile_def exampleHeader_def int32LE_def epochCandle_def zeros8_def
      replicate_4)

lemma timestamp_epochCandle: "timestamp (epochCandle t) = VDate t"
  by (simp add: timestamp_def epochCandle_def)

text \<open>
  C4. When the candidate's timestamp is zero, the search should go on from the record
  at \<open>floor(candleNumber / 2)\<close>. On the parser just made of the file of three records,
  \<open>getCandleAt\<close> for the timestamp of the third record, 7200000: the candidate, of index
  2, is the first record, of timestamp 0, since \<open>getCandleNumber\<close> decodes at the stored
  offset; \<open>getCandleNumber(floor(2 / 2))\<close> then returns the first record again, not the
  record of index 1 at offset 192, whose timestamp is 3600000; the search goes on from the
  timestamp 0 and ends at the second attempt with the too-small error, although the
  record at offset 236 has the timestamp asked for.
\<close>

theorem getCandleAt_zero_branch_repeats_candidate:
  "constructor epochFiles ''EPOCH60.hst'' = Inr epochParser
   \<and> candidate exampleData epochParser 7200000 (start epochParser)
       = (Inr (epochCandle 0), epochParser\<lparr>byteOffset := 148, candleNumber := Fin 2\<rparr>)
   \<and> floor_half (Fin 2) = Fin 1
   \<and> getCandleNumber exampleData (epochParser\<lparr>byteOffset := 148, candleNumber := Fin 2\<rparr>) (Fin 1)
       = (Inr (epochCandle 0), epochParser\<lparr>byteOffset := 148, candleNumber := Fin 1\<rparr>)
   \<and> newByteOffset (Fin 1) (candleByteSize epochParser) = Fin 192
   \<and> decodeAt exampleData epochParser 192 = Inr (epochCandle 3600000)
   \<and> decodeAt exampleData epochParser 236 = Inr (epochCandle 7200000)
   \<and> getCandleAt exampleData epochParser 7200000 (start epochParser) 0
       = Some (Inl FileTooSmall, epochParser\<lparr>byteOffset := 148, candleNumber := Fin 3\<rparr>)"
proof -
  have c0: "candidate exampleData epochParser 7200000 0
       = (Inr (epochCandle 0), epochParser\<lparr>byteOffset := 148, candleNumber := Fin 2\<rparr>)"
    by (simp add: candidate_def getCandleNumber_eq newByteOffset_def num_sub_def
        decodeAt_epoch)
  have g: "getCandleNumber exampleData (epochParser\<lparr>byteOffset := 148, candleNumber := Fin 2\<rparr>) (Fin 1)
       = (Inr (epochCandle 0), epochParser\<lparr>byteOffset := 148, candleNumber := Fin 1\<rparr>)"
    by (simp add: getCandleNumber_eq newByteOffset_def decodeAt_epoch)
  have c1: "candidate exampleData (epochParser\<lparr>byteOffset := 148, candleNumber := Fin 1\<rparr>) 7200000 0
       = (Inl FileTooSmall, epochParser\<lparr>byteOffset := 148, candleNumber := Fin 3\<rparr>)"
    by (simp add: candidate_def getCandleNumber_eq newByteOffset_def num_sub_def)
  have s1: "getCandleAt exampleData (epochParser\<lparr>byteOffset := 148, candleNumber := Fin 1\<rparr>)
        7200000 0 1
       = Some (Inl FileTooSmall, epochParser\<lparr>byteOffset := 148, candleNumber := Fin 3\<rparr>)"
    by (subst getCandleAt_unfold) (simp add: c1)
  have s0: "getCandleAt exampleData epochParser 7200000 0 0
       = Some (Inl FileTooSmall, epochParser\<lparr>byteOffset := 148, candleNumber := Fin 3\<rparr>)"
    by (subst getCandleAt_unfold)
       (simp add: c0 g s1 timestamp_epochCandle floor_half_2)
  show ?thesis
    using c0 g s0
    by (simp add: constructor_epoch floor_half_2 newByteOffset_def decodeAt_epoch)
qed

section \<open>Decoding\<close>

subsection \<open>Four bytes as a signed 32-bit word\<close>

lemma signed32:
  assumes "0 \<le> u" "u < 4294967296"
  shows "signed_take_bit (31::nat) (u::int) = (if u < 2147483648 then u else u - 4294967296)"
proof -
  have s: "signed_take_bit (31::nat) u = (u + 2147483648) mod 4294967296 - 2147483648"
    by (simp add: signed_take_bit_eq_take_bit_shift take_bit_eq_mod)
  show ?thesis
  proof (cases "u < 2147483648")
    case True
    have "(u + 2147483648) mod 4294967296 = u + 2147483648"
      using assms True by (intro mod_pos_pos_trivial) simp_all
    with s True show ?thesis by simp
  next
    case False
    have "u + 2147483648 = u - 2147483648 + 4294967296"
      by arith
    then have "(u + 2147483648) mod 4294967296 = (u - 2147483648 + 4294967296) mod 4294967296"
      by (rule arg_cong)
    also have "\<dots> = (u - 2147483648) mod 4294967296"
      by (simp only: mod_add_self2)
    also have "\<dots> = u - 2147483648"
      using assms False by (intro mod_pos_pos_trivial) simp_all
    finally show ?thesis using s False by simp
  qed
qed

lemma int32LE_word: "int32LE b0 b1 b2 b3 = sint (word_rcat [b3, b2, b1, b0] :: 32 word)"
proof -
  have b: "0 \<le> uint b0" "uint b0 < 256" "0 \<le> uint b1" "uint b1 < 256"
          "0 \<le> uint b2" "uint b2 < 256" "0 \<le> uint b3" "uint b3 < 256"
    using uint_bounded [of b0] uint_bounded [of b1] uint_bounded [of b2] uint_bounded [of b3]
    by simp_all
  define u where "u = uint b0 + 256 * uint b1 + 65536 * uint b2 + 16777216 * uint b3"
  have r: "0 \<le> u" "u < 4294967296" using b by (simp_all add: u_def)
  have "(word_rcat [b3, b2, b1, b0] :: 32 word) = word_of_int u"
    by (simp add: word_rcat_def u_def algebra_simps)
  then have "sint (word_rcat [b3, b2, b1, b0] :: 32 word) = signed_take_bit (31::nat) u"
    by (simp add: sint_sbintrunc')
  also have "\<dots> = (if u < 2147483648 then u else u - 4294967296)"
    using r by (rule signed32)
  finally show ?thesis by (simp add: int32LE_def u_def Let_def)
qed

lemma readInt32LE_word:
  "4 \<le> length b \<Longrightarrow> readInt32LE b = Inr (sint (word_rcat (rev (take 4 b)) :: 32 word))"
  by (cases b rule: readInt32LE.cases) (simp_all add: int32LE_word)

subsection \<open>Reads and assignments\<close>

lemma readSync_take: "m \<le> n \<Longrightarrow> take m (readSync bytes n pos) = readSync bytes m pos"
  by (auto simp: readSync_def Let_def min_def)

lemma readSync_full:
  "pos + n \<le> length bytes \<Longrightarrow> readSync bytes n pos = take n (drop pos bytes)"
  by (simp add: readSync_def Let_def)

lemma readSync_append:
  "length h \<le> pos \<Longrightarrow> readSync (h @ body) n pos = readSync body n (pos - length h)"
  by (simp add: readSync_def)

lemma map_of_assign: "map_of (assign c k v) = (map_of c)(k \<mapsto> v)"
  by (induction c) (auto simp: fun_eq_iff)

lemma readFields_other:
  "readFields p es acc = Inr c \<Longrightarrow> k \<notin> fst ` set es \<Longrightarrow> map_of c k = map_of acc k"
proof (induction es arbitrary: acc)
  case Nil
  then show ?case by simp
next
  case (Cons x es)
  obtain k' d' where x: "x = (k', d')" by (cases x)
  from Cons.prems obtain v where v: "readField p d' = Inr v"
    and rest: "readFields p es (assign acc k' v) = Inr c"
    by (auto simp: x split: sum.splits)
  from Cons.prems have "k \<noteq> k'" "k \<notin> fst ` set es" by (auto simp: x)
  with Cons.IH [OF rest] show ?case by (simp add: map_of_assign)
qed

lemma readFields_map_of:
  "readFields p es acc = Inr c \<Longrightarrow> distinct (map fst es) \<Longrightarrow> (k, d) \<in> set es \<Longrightarrow>
   \<exists>v. readField p d = Inr v \<and> map_of c k = Some v"
proof (induction es arbitrary: acc)
  case Nil
  then show ?case by simp
next
  case (Cons x es)
  obtain k' d' where x: "x = (k', d')" by (cases x)
  from Cons.prems obtain v where v: "readField p d' = Inr v"
    and rest: "readFields p es (assign acc k' v) = Inr c"
    by (auto simp: x split: sum.splits)
  show ?case
  proof (cases "(k, d) = (k', d')")
    case True
    from Cons.prems have "k' \<notin> fst ` set es" by (simp add: x)
    from readFields_other [OF rest this] True v show ?thesis
      by (simp add: map_of_assign)
  next
    case False
    with Cons.prems have "(k, d) \<in> set es" "distinct (map fst es)" by (auto simp: x)
    with Cons.IH [OF rest] show ?thesis by blast
  qed
qed

text \<open>
  C5. In a record decode that succeeds, a field of type \<open>date\<close> (with no constant
  value and a size of at least four bytes) is the Date of the four bytes at
  \<open>byteOffset + position\<close>, read as a little-endian signed 32-bit integer: times 1000
  when the version is 400, unmodified for every other version. (Bytes past the end of the
  file read as zero; the keys of the table entry are distinct, as those of an object are.)
\<close>

theorem readCandle_date_field:
  assumes "pd (version p) = Some entries" "distinct (map fst entries)" "(key, d) \<in> set entries"
    and "fvalue d = VUndefined" "ftype d = Some ''date''" "fsize d = Some n" "4 \<le> n"
    and "readCandle pd p = (Inr c, p')"
  shows "map_of c key = Some (VDate
     (let raw = sint (word_rcat (rev (readSync (fd p) 4
                  (nat (byteOffset p' + int (or_zero (fposition d)))))) :: 32 word)
      in if version p = 400 then raw * 1000 else raw))"
proof -
  from assms(8) have p': "p' = p\<lparr>byteOffset := max 148 (byteOffset p)\<rparr>"
    and dec: "decodeAt pd p (max 148 (byteOffset p)) = Inr c"
    by (simp_all add: readCandle_decodeAt)
  from dec assms(1) have "readFields p' entries [] = Inr c"
    by (simp add: decodeAt_def p')
  from readFields_map_of [OF this assms(2,3)]
  obtain v where v: "readField p' d = Inr v" and m: "map_of c key = Some v"
    by blast
  let ?buf = "readSync (fd p) n (nat (byteOffset p' + int (or_zero (fposition d))))"
  have len: "4 \<le> length ?buf" using assms(7) by (simp add: length_readSync)
  have "readField p' d = parserFunctions (version p) ''date'' ?buf"
    using assms(4,5,6) by (simp add: readField_def or_undefined_def or_zero_def p')
  also have "\<dots> = Inr (VDate (if version p = 400
        then sint (word_rcat (rev (take 4 ?buf)) :: 32 word) * 1000
        else sint (word_rcat (rev (take 4 ?buf)) :: 32 word)))"
    by (simp add: parserFunctions_def readInt32LE_word [OF len])
  finally show ?thesis
    using v m assms(7) by (simp add: readSync_take Let_def)
qed

text \<open>
  C6. For every file of at least 148 bytes the constructor succeeds, and whatever the
  version: \<open>version\<close> is the little-endian signed 32-bit integer of the four bytes at
  offset 0, \<open>symbol\<close> the twelve bytes at offset 68, none trimmed, \<open>period\<close> the
  integer of the four bytes at offset 80, and \<open>start\<close> the integer of the four bytes
  read at offset 148, times 1000. These four bytes are those of the file when it has at
  least 152 bytes; bytes that a shorter file does not have read as zero.
\<close>

theorem constructor_header:
  assumes "files filename = Some bytes" "148 \<le> length bytes"
  shows "\<exists>p. constructor files filename = Inr p
     \<and> version p = sint (word_rcat (rev (take 4 bytes)) :: 32 word)
     \<and> symbol p = take 12 (drop 68 bytes)
     \<and> period p = sint (word_rcat (rev (take 4 (drop 80 bytes))) :: 32 word)
     \<and> start p = sint (word_rcat (rev (readSync bytes 4 148)) :: 32 word) * 1000
     \<and> (152 \<le> length bytes \<longrightarrow> readSync bytes 4 148 = take 4 (drop 148 bytes))"
proof -
  have v: "readInt32LE (take 4 bytes) = Inr (sint (word_rcat (rev (take 4 bytes)) :: 32 word))"
    using assms(2) readInt32LE_word [of "take 4 bytes"] by simp
  have per: "readInt32LE (take 4 (drop 80 bytes))
      = Inr (sint (word_rcat (rev (take 4 (drop 80 bytes))) :: 32 word))"
    using assms(2) readInt32LE_word [of "take 4 (drop 80 bytes)"] by simp
  have st: "readInt32LE (readSync bytes 4 148)
      = Inr (sint (word_rcat (rev (readSync bytes 4 148)) :: 32 word))"
    using readInt32LE_word [of "readSync bytes 4 148"] by (simp add: length_readSync)
  have sym: "readSync bytes 12 68 = take 12 (drop 68 bytes)"
    using assms(2) by (simp add: readSync_full)
  show ?thesis
    using assms by (simp add: constructor_def v per st sym Let_def readSync_full)
qed

text \<open>
  C10. \<open>readCandle\<close> replaces a stored \<open>byteOffset\<close> below 148 with 148 and keeps
  it so, and what it decodes does not depend on the first 148 bytes of the file: no
  field is read from inside the header, whatever offset the call before had left.
\<close>

theorem readCandle_reads_no_header:
  assumes "length h1 = 148" "length h2 = 148"
  shows "fst (readCandle pd (p\<lparr>fd := h1 @ body\<rparr>)) = fst (readCandle pd (p\<lparr>fd := h2 @ body\<rparr>))
     \<and> byteOffset (snd (readCandle pd p)) = max 148 (byteOffset p)
     \<and> 148 \<le> byteOffset (snd (readCandle pd p))"
proof -
  have f: "readField q1 d = readField q2 d"
    if "148 \<le> byteOffset q1" "byteOffset q2 = byteOffset q1" "version q2 = version q1"
       "fd q1 = h1 @ body" "fd q2 = h2 @ body" for q1 q2 d
    using that assms by (simp add: readField_def readSync_append)
  have fs: "readFields q1 es acc = readFields q2 es acc"
    if "148 \<le> byteOffset q1" "byteOffset q2 = byteOffset q1" "version q2 = version q1"
       "fd q1 = h1 @ body" "fd q2 = h2 @ body" for q1 q2 es acc
    using f [OF that] by (induction es arbitrary: acc) (auto split: sum.splits)
  have "decodeAt pd (p\<lparr>fd := h1 @ body\<rparr>) (max 148 (byteOffset p))
      = decodeAt pd (p\<lparr>fd := h2 @ body\<rparr>) (max 148 (byteOffset p))"
    by (auto simp: decodeAt_def split: option.splits intro!: fs)
  then show ?thesis
    by (simp add: readCandle_decodeAt)
qed


subsection \<open>On the example\<close>

lemma readCandle_example:
  "readCandle exampleData exampleParser = (Inr exampleCandle0, exampleParser\<lparr>byteOffset := 148\<rparr>)"
  by (simp add: readCandle_decodeAt decodeAt_example_148)

theorem readCandle_date_field_witness:
  "exampleData (version exampleParser) = Some legacyLayout
   \<and> distinct (map fst legacyLayout)
   \<and> (''timestamp'', timestampField) \<in> set legacyLayout
   \<and> fvalue timestampField = VUndefined \<and> ftype timestampField = Some ''date''
   \<and> fsize timestampField = Some 4 \<and> (4::nat) \<le> 4
   \<and> readCandle exampleData exampleParser
       = (Inr exampleCandle0, exampleParser\<lparr>byteOffset := 148\<rparr>)
   \<and> version exampleParser = 400
   \<and> map_of exampleCandle0 ''timestamp'' = Some (VDate 10000000)
   \<and> sint (word_rcat (rev (readSync (fd exampleParser) 4 148)) :: 32 word) * 1000 = 10000000"
proof -
  have h: "exampleData (version exampleParser) = Some legacyLayout"
    "distinct (map fst legacyLayout)" "(''timestamp'', timestampField) \<in> set legacyLayout"
    "fvalue timestampField = VUndefined" "ftype timestampField = Some ''date''"
    "fsize timestampField = Some 4" "(4::nat) \<le> 4"
    by (simp_all add: exampleData_def legacyLayout_def timestampField_def)
  have m: "map_of exampleCandle0 ''timestamp'' = Some (VDate 10000000)"
    by (simp add: exampleCandle0_def)
  have pos: "or_zero (fposition timestampField) = 0"
    by (simp add: or_zero_def timestampField_def)
  show ?thesis
    using readCandle_date_field [OF h readCandle_example] h m
    by (simp add: readCandle_example pos Let_def)
qed

theorem constructor_header_witness:
  "exampleFiles ''EURUSD60.hst'' = Some exampleFile \<and> 148 \<le> length exampleFile
   \<and> 152 \<le> length exampleFile
   \<and> constructor exampleFiles ''EURUSD60.hst'' = Inr exampleParser
   \<and> sint (word_rcat (rev (take 4 exampleFile)) :: 32 word) = 400
   \<and> take 12 (drop 68 exampleFile) = [69, 85, 82, 85, 83, 68, 0, 0, 0, 0, 0, 0]
   \<and> sint (word_rcat (rev (take 4 (drop 80 exampleFile))) :: 32 word) = 60
   \<and> sint (word_rcat (rev (take 4 (drop 148 exampleFile))) :: 32 word) * 1000 = 10000000"
proof -
  have h: "exampleFiles ''EURUSD60.hst'' = Some exampleFile" "148 \<le> length exampleFile"
    by (simp_all add: exampleFiles_def length_exampleFile)
  have s: "symbol exampleParser = [69, 85, 82, 85, 83, 68, 0, 0, 0, 0, 0, 0]"
    by (simp add: exampleParser_def)
  show ?thesis
    using constructor_header [of exampleFiles "''EURUSD60.hst''" exampleFile] h s
    by (auto simp add: constructor_example length_exampleFile)
qed

theorem readCandle_reads_no_header_witness:
  "length exampleHeader = 148 \<and> length (replicate 148 (0::byte)) = 148
   \<and> fst (readCandle exampleData (exampleParser\<lparr>fd := exampleHeader @ exampleRecords\<rparr>))
       = Inr exampleCandle0
   \<and> fst (readCandle exampleData (exampleParser\<lparr>fd := replicate 148 0 @ exampleRecords\<rparr>))
       = Inr exampleCandle0
   \<and> byteOffset exampleParser = 104
   \<and> byteOffset (snd (readCandle exampleData exampleParser)) = 148"
proof -
  have h: "length exampleHeader = 148" "length (replicate 148 (0::byte)) = 148"
    by (simp_all add: exampleHeader_def)
  have e: "exampleParser\<lparr>fd := exampleHeader @ exampleRecords\<rparr> = exampleParser"
    by (simp add: exampleParser_def exampleFile_def)
  show ?thesis
    using readCandle_reads_no_header [OF h, where pd = exampleData and p = exampleParser
        and body = exampleRecords] h
    by (simp add: e readCandle_example)
qed

section \<open>The range of the cursor\<close>

text \<open>The constructor establishes \<open>cursorInRange\<close> and every method keeps it, whether
  it succeeds or fails.\<close>

lemma constructor_cursorInRange: "constructor files filename = Inr p \<Longrightarrow> cursorInRange p"
  by (auto simp: constructor_def cursorInRange_def Let_def split: option.splits if_splits sum.splits)

lemma getNextCandle_cursorInRange:
  "cursorInRange p \<Longrightarrow> cursorInRange (snd (getNextCandle pd p))"
  by (auto simp: getNextCandle_eq cursorInRange_def)

lemma getPrevCandle_cursorInRange:
  "cursorInRange p \<Longrightarrow> cursorInRange (snd (getPrevCandle pd p))"
  by (auto simp: getPrevCandle_eq cursorInRange_def)

lemma getCandleNumber_cursorInRange:
  "cursorInRange p \<Longrightarrow> cursorInRange (snd (getCandleNumber pd p n))"
  by (auto simp: getCandleNumber_eq cursorInRange_def)

lemma getCandleAt_cursorInRange:
  assumes "cursorInRange p" "getCandleAt pd p date startDate i = Some r"
  shows "cursorInRange (snd r)"
proof -
  define Q :: "candle result option \<Rightarrow> bool" where
    "Q x \<longleftrightarrow> (\<forall>r. x = Some r \<longrightarrow> cursorInRange (snd r))" for x
  have ret: "Q (Some (a, q))" if "cursorInRange q" for a q
    using that by (simp add: Q_def)
  have "Q (getCandleAt pd p date startDate i)" using assms(1)
  proof (induction "nat (50 - i)" arbitrary: p startDate i rule: less_induct)
    case less
    have IH: "Q (getCandleAt pd p' date sd' (i + 1))" if "i < 50" "cursorInRange p'" for p' sd'
      using that by (intro less(1)) simp_all
    obtain x p1 where c: "candidate pd p date startDate = (x, p1)"
      by (cases "candidate pd p date startDate")
    have "cursorInRange (snd (candidate pd p date startDate))"
      unfolding candidate_def by (rule getCandleNumber_cursorInRange [OF less.prems])
    then have r1: "cursorInRange p1"
      by (simp add: c)
    obtain y p2 where g: "getCandleNumber pd p1 (floor_half (candleNumber p1)) = (y, p2)"
      by (cases "getCandleNumber pd p1 (floor_half (candleNumber p1))")
    have r2: "cursorInRange p2"
      using getCandleNumber_cursorInRange [OF r1, of pd "floor_half (candleNumber p1)"] g
      by simp
    show ?case
      by (subst getCandleAt_unfold)
         (simp add: c g ret r1 r2 IH split: sum.splits val.splits)
  qed
  with assms(2) show ?thesis by (simp add: Q_def)
qed

end
